theory Spec2Isabelle
  imports Main
begin

section \<open>Data model (types.ts)\<close>

text \<open>
  \<^verbatim>\<open>FileNode\<close> of the source: \<^verbatim>\<open>name\<close> and \<^verbatim>\<open>type\<close> are required, the other fields
  are optional (\<^verbatim>\<open>undefined\<close> is \<open>None\<close>). The optional fields \<^verbatim>\<open>category\<close> and
  \<^verbatim>\<open>size\<close> are called \<open>node_category\<close> and \<open>node_size\<close> here, since \<open>category\<close> is also a
  field of the detection result and \<open>size\<close> is a constant of HOL.

  Names are strings over 8-bit code units. Ages and sizes are JavaScript numbers holding
  integers (days, KB), modelled as \<open>int\<close>; where an age is printed, \<open>Number_toString\<close>
  prints it as the double that holds it.
\<close>

text \<open>The string literal type \<^verbatim>\<open>'file' | 'folder'\<close>.\<close>

datatype NodeType = File | Folder

datatype FileNode =
  FileNode (name: string) (type: NodeType) (children: "FileNode list option")
           (age: "int option") (node_category: "string option") (node_size: "int option")

section \<open>Recursive size calculation (App.tsx, enrichWithSizes)\<close>

text \<open>\<^verbatim>\<open>x || 0\<close> on an optional number: \<^verbatim>\<open>undefined\<close> and \<^verbatim>\<open>0\<close> both give \<open>0\<close>.\<close>

definition or0 :: "int option \<Rightarrow> int" where
  "or0 x = (case x of None \<Rightarrow> 0 | Some v \<Rightarrow> (if v = 0 then 0 else v))"

text \<open>
  \<^verbatim>\<open>traverse\<close>, the local function of \<^verbatim>\<open>enrichWithSizes\<close>:
  \<^verbatim>\<open>currentNode.children?.map(traverse) || []\<close> is the empty array exactly when the children
  are absent (an array, even an empty one, is truthy); the folder's size is the
  \<^verbatim>\<open>reduce\<close> over the enriched children starting from \<open>0\<close>; the returned object always
  has \<^verbatim>\<open>children\<close> and \<^verbatim>\<open>size\<close> present.
\<close>

fun traverse :: "FileNode \<Rightarrow> FileNode" where
  "traverse (FileNode n t ch a c s) =
     (let enrichedChildren = (case ch of None \<Rightarrow> [] | Some cs \<Rightarrow> map traverse cs);
          size0 = or0 s;
          size1 = (if t = Folder
                   then foldl (\<lambda>acc child. acc + or0 (node_size child)) 0 enrichedChildren
                   else size0)
      in FileNode n t (Some enrichedChildren) a c (Some size1))"

definition enrichWithSizes :: "FileNode \<Rightarrow> FileNode" where
  "enrichWithSizes node = traverse node"

section \<open>JavaScript strings, numbers and regular expressions\<close>

text \<open>\<^verbatim>\<open>s.startsWith(p)\<close> and \<^verbatim>\<open>s.includes(sub)\<close> on strings.\<close>

fun startsWith :: "string \<Rightarrow> string \<Rightarrow> bool" where
  "startsWith s [] = True"
| "startsWith [] (p # ps) = False"
| "startsWith (c # cs) (p # ps) = (c = p \<and> startsWith cs ps)"

fun includes_str :: "string \<Rightarrow> string \<Rightarrow> bool" where
  "includes_str [] sub = (sub = [])"
| "includes_str (c # cs) sub = (startsWith (c # cs) sub \<or> includes_str cs sub)"

text \<open>
  \<^verbatim>\<open>s.lastIndexOf(sub)\<close>: the greatest index at which \<^verbatim>\<open>sub\<close> occurs, \<open>-1\<close> when there is
  none. The scan goes left to right, \<open>i\<close> is the index of the position it looks at and
  \<open>found\<close> the last index seen so far.
\<close>

fun lastIndexOf_from :: "string \<Rightarrow> string \<Rightarrow> nat \<Rightarrow> int \<Rightarrow> int" where
  "lastIndexOf_from [] sub i found = (if sub = [] then int i else found)"
| "lastIndexOf_from (c # cs) sub i found =
     lastIndexOf_from cs sub (Suc i) (if startsWith (c # cs) sub then int i else found)"

definition lastIndexOf :: "string \<Rightarrow> string \<Rightarrow> int" where
  "lastIndexOf s sub = lastIndexOf_from s sub 0 (- 1)"

text \<open>\<^verbatim>\<open>s.substring(start)\<close> with one argument; a negative start counts as \<open>0\<close>.\<close>

definition substring :: "string \<Rightarrow> int \<Rightarrow> string" where
  "substring s start = drop (nat start) s"

text \<open>
  \<^verbatim>\<open>s.toLowerCase()\<close>, on the letters \<open>A\<close> to \<open>Z\<close>. A code unit outside ASCII is left as
  it is; its lower case is again outside ASCII, and every key of the extension table is
  ASCII, so the lookup cannot tell the difference.
\<close>

definition toLowerCase_char :: "char \<Rightarrow> char" where
  "toLowerCase_char c =
     (case map_of (zip ''ABCDEFGHIJKLMNOPQRSTUVWXYZ'' ''abcdefghijklmnopqrstuvwxyz'') c of
        Some l \<Rightarrow> l
      | None \<Rightarrow> c)"

definition toLowerCase :: "string \<Rightarrow> string" where
  "toLowerCase s = map toLowerCase_char s"

text \<open>
  A regular expression literal. Every pattern of the source is a plain sequence of
  letters with the flag \<^verbatim>\<open>i\<close> and without the flags \<^verbatim>\<open>g\<close> and \<^verbatim>\<open>u\<close>, so \<^verbatim>\<open>test\<close> keeps no
  state and is an unanchored search for the letters. With \<^verbatim>\<open>i\<close>, two code units match
  when their canonical forms are equal; the canonical form (ECMAScript, Canonicalize
  without \<^verbatim>\<open>u\<close>) is the upper case, and a code unit outside ASCII never has an ASCII
  canonical form, so it is left as it is here.
\<close>

datatype RegExp = RegExp (source: string) (ignoreCase: bool)

definition Canonicalize :: "char \<Rightarrow> char" where
  "Canonicalize c =
     (case map_of (zip ''abcdefghijklmnopqrstuvwxyz'' ''ABCDEFGHIJKLMNOPQRSTUVWXYZ'') c of
        Some u \<Rightarrow> u
      | None \<Rightarrow> c)"

definition test :: "RegExp \<Rightarrow> string \<Rightarrow> bool" where
  "test re s =
     (if ignoreCase re
      then includes_str (map Canonicalize s) (map Canonicalize (source re))
      else includes_str s (source re))"

text \<open>
  How a template literal \<^verbatim>\<open>${n}\<close> prints a number that holds an integer (ECMAScript,
  Number::toString with radix 10). A number is a double: an integer below \<open>2^53\<close> is held
  as it is, a greater one is held when it is \<open>m * 2^e\<close> with \<open>2^52 \<le> m < 2^53\<close>, and an
  integer that no double holds stands for the double nearest to it, ties to the even
  \<open>m\<close>, or for \<^verbatim>\<open>Infinity\<close> from \<open>2^1024 - 2^970\<close> on.
\<close>

function digits :: "int \<Rightarrow> string" where
  "digits n =
     (if n < 10 then [''0123456789'' ! nat n]
      else digits (n div 10) @ [''0123456789'' ! nat (n mod 10)])"
  by pat_completeness auto
termination
  by (relation "measure nat") auto

text \<open>The exponent \<open>e\<close> of the double \<open>m * 2^e\<close>: \<open>0\<close> below \<open>2^53\<close>.\<close>

function binade :: "int \<Rightarrow> nat" where
  "binade n = (if n < 9007199254740992 then 0 else Suc (binade (n div 2)))"
  by pat_completeness auto
termination
  by (relation "measure nat") auto

definition nearest_double :: "int \<Rightarrow> int" where
  "nearest_double n =
     (let e = binade n; m = n div 2 ^ e; r = n mod 2 ^ e
      in if 2 ^ e < 2 * r \<or> (2 * r = 2 ^ e \<and> odd m) then (m + 1) * 2 ^ e else m * 2 ^ e)"

text \<open>
  \<open>rounds_to x v\<close>: the double nearest to the integer \<open>v\<close> is the double \<open>x\<close>. The next
  double above \<open>x\<close> is \<open>2^e\<close> away, the one below as far or, under a power of two, half as
  far; the two midpoints belong to \<open>x\<close> when its \<open>m\<close> is even.
\<close>

definition rounds_to :: "int \<Rightarrow> int \<Rightarrow> bool" where
  "rounds_to x v =
     (let e = binade x; m = x div 2 ^ e;
          above = 2 ^ e;
          below = (if m = 4503599627370496 \<and> 0 < e then 2 ^ (e - 1) else 2 ^ e)
      in if even m then 2 * x - below \<le> 2 * v \<and> 2 * v \<le> 2 * x + above
         else 2 * x - below < 2 * v \<and> 2 * v < 2 * x + above)"

text \<open>
  The number with the fewest significant digits that is read back as the double \<open>x\<close>:
  the multiple of the greatest power of ten \<open>10^j\<close> that rounds to \<open>x\<close>, the one closest to
  \<open>x\<close> when there are two, the even one when both are as close.
\<close>

fun shortest :: "int \<Rightarrow> nat \<Rightarrow> int" where
  "shortest x 0 = x"
| "shortest x (Suc j) =
     (let p = 10 ^ Suc j; lo = (x div p) * p; hi = lo + p
      in if rounds_to x lo \<and> rounds_to x hi then
           (if x - lo < hi - x then lo
            else if hi - x < x - lo then hi
            else if even (x div p) then lo else hi)
         else if rounds_to x lo then lo
         else if rounds_to x hi then hi
         else shortest x j)"

definition strip_zeros :: "string \<Rightarrow> string" where
  "strip_zeros s = rev (dropWhile (\<lambda>c. c = CHR ''0'') (rev s))"

text \<open>
  Up to 21 digits the number is printed in full, its digits after the significant ones
  being zeros; a longer one is printed with an exponent, \<^verbatim>\<open>1e+21\<close> or
  \<^verbatim>\<open>1.1805916207174113e+21\<close>.
\<close>

definition Number_toString_nonneg :: "int \<Rightarrow> string" where
  "Number_toString_nonneg n =
     (let x = nearest_double n in
      if 2 ^ 1024 \<le> x then ''Infinity''
      else
        (let v = digits (shortest x (length (digits x))); s = strip_zeros v in
         if length v \<le> 21 then v
         else if length s \<le> 1 then take 1 v @ ''e+'' @ digits (int (length v) - 1)
         else take 1 s @ ''.'' @ drop 1 s @ ''e+'' @ digits (int (length v) - 1)))"

definition Number_toString :: "int \<Rightarrow> string" where
  "Number_toString n =
     (if n < 0 then ''-'' @ Number_toString_nonneg (- n) else Number_toString_nonneg n)"

text \<open>\<^verbatim>\<open>x ?? 0\<close> on an optional number.\<close>

definition nullish0 :: "int option \<Rightarrow> int" where
  "nullish0 x = (case x of None \<Rightarrow> 0 | Some v \<Rightarrow> v)"

text \<open>
  \<^verbatim>\<open>children?.some(p) ?? false\<close>: an absent array gives \<^verbatim>\<open>undefined\<close>, which \<^verbatim>\<open>??\<close> turns
  into \<^verbatim>\<open>false\<close>.
\<close>

definition some_or_false :: "FileNode list option \<Rightarrow> (FileNode \<Rightarrow> bool) \<Rightarrow> bool" where
  "some_or_false cs p = (case cs of None \<Rightarrow> False | Some xs \<Rightarrow> list_ex p xs)"

section \<open>Detection rules (utils/detectionRules.ts)\<close>

text \<open>The keys of \<^verbatim>\<open>FILE_CATEGORIES\<close>.\<close>

datatype Category =
    PROJECT_GIT
  | PROJECT_NODE
  | PROJECT_PYTHON
  | PROJECT_UNITY
  | PROJECT_RUST
  | PROJECT_GO
  | PROJECT_JAVA
  | DOC_PDF
  | DOC_OFFICE
  | DOC_TEXT
  | MEDIA_VIDEO
  | MEDIA_AUDIO
  | MEDIA_IMAGE
  | ARCHIVE_COMPRESSED
  | SDK_DOTNET
  | CONFIG_DOTFILE
  | TOOL_EXECUTABLE
  | PRIVATE_FINANCIAL
  | PRIVATE_LEGAL
  | PRIVATE_MEDICAL
  | PRIVATE_IDENTITY
  | VACUUM_EMPTY
  | VACUUM_TEMP
  | ARCHIVE_STALE

record CategoryConfig =
  target :: string
  priority :: int

record DetectionResult = CategoryConfig +
  category :: Category
  reason :: string

text \<open>
  The fields \<^verbatim>\<open>check\<close>, \<^verbatim>\<open>category\<close> and \<^verbatim>\<open>reason\<close> of the four rule interfaces carry a
  prefix each, since a field name belongs to one record type.
\<close>

record ProjectDetector =
  pd_name :: string
  pd_check :: "FileNode \<Rightarrow> FileNode list option \<Rightarrow> bool"
  pd_category :: Category
  pd_reason :: string

record ExtensionRule =
  er_category :: Category
  er_reason :: string

record NamePattern =
  np_pattern :: RegExp
  np_category :: Category
  np_reason :: string

text \<open>
  The \<^verbatim>\<open>reason\<close> of a folder rule is a string or, for the staleness rule, a function of
  the item; \<^verbatim>\<open>detectFileCategory\<close> tells them apart with \<^verbatim>\<open>typeof\<close>.
\<close>

datatype Reason = StaticReason string | ComputedReason "FileNode \<Rightarrow> string"

record FolderRule =
  fr_check :: "FileNode \<Rightarrow> bool"
  fr_category :: Category
  fr_reason :: Reason

fun FILE_CATEGORIES :: "Category \<Rightarrow> CategoryConfig" where
  "FILE_CATEGORIES PROJECT_GIT = \<lparr>target = ''01_Build/Projects'', priority = 10\<rparr>"
| "FILE_CATEGORIES PROJECT_NODE = \<lparr>target = ''01_Build/Web'', priority = 10\<rparr>"
| "FILE_CATEGORIES PROJECT_PYTHON = \<lparr>target = ''01_Build/Data'', priority = 10\<rparr>"
| "FILE_CATEGORIES PROJECT_UNITY = \<lparr>target = ''01_Build/Interactive'', priority = 10\<rparr>"
| "FILE_CATEGORIES PROJECT_RUST = \<lparr>target = ''01_Build/Systems'', priority = 10\<rparr>"
| "FILE_CATEGORIES PROJECT_GO = \<lparr>target = ''01_Build/Systems'', priority = 10\<rparr>"
| "FILE_CATEGORIES PROJECT_JAVA = \<lparr>target = ''01_Build/Enterprise'', priority = 10\<rparr>"
| "FILE_CATEGORIES DOC_PDF = \<lparr>target = ''03_Library/Documents'', priority = 5\<rparr>"
| "FILE_CATEGORIES DOC_OFFICE = \<lparr>target = ''03_Library/Documents'', priority = 5\<rparr>"
| "FILE_CATEGORIES DOC_TEXT = \<lparr>target = ''03_Library/Notes'', priority = 5\<rparr>"
| "FILE_CATEGORIES MEDIA_VIDEO = \<lparr>target = ''05_Stage/Media/Videos'', priority = 5\<rparr>"
| "FILE_CATEGORIES MEDIA_AUDIO = \<lparr>target = ''05_Stage/Media/Audio'', priority = 5\<rparr>"
| "FILE_CATEGORIES MEDIA_IMAGE = \<lparr>target = ''05_Stage/Media/Images'', priority = 5\<rparr>"
| "FILE_CATEGORIES ARCHIVE_COMPRESSED = \<lparr>target = ''00_Inbox/Archives'', priority = 5\<rparr>"
| "FILE_CATEGORIES SDK_DOTNET = \<lparr>target = ''02_Studio/SDKs'', priority = 8\<rparr>"
| "FILE_CATEGORIES CONFIG_DOTFILE = \<lparr>target = ''02_Studio/Config'', priority = 8\<rparr>"
| "FILE_CATEGORIES TOOL_EXECUTABLE = \<lparr>target = ''02_Studio/Tools'', priority = 7\<rparr>"
| "FILE_CATEGORIES PRIVATE_FINANCIAL = \<lparr>target = ''04_Private/Financial'', priority = 9\<rparr>"
| "FILE_CATEGORIES PRIVATE_LEGAL = \<lparr>target = ''04_Private/Legal'', priority = 9\<rparr>"
| "FILE_CATEGORIES PRIVATE_MEDICAL = \<lparr>target = ''04_Private/Medical'', priority = 9\<rparr>"
| "FILE_CATEGORIES PRIVATE_IDENTITY = \<lparr>target = ''04_Private/Identity'', priority = 9\<rparr>"
| "FILE_CATEGORIES VACUUM_EMPTY = \<lparr>target = ''VACUUM'', priority = 3\<rparr>"
| "FILE_CATEGORIES VACUUM_TEMP = \<lparr>target = ''VACUUM'', priority = 6\<rparr>"
| "FILE_CATEGORIES ARCHIVE_STALE = \<lparr>target = ''99_Archives/2024'', priority = 4\<rparr>"

text \<open>
  The project detectors, each under the identifier its \<^verbatim>\<open>name\<close> field suggests, and their
  list in the order of the source. The second argument of \<^verbatim>\<open>check\<close> is optional.
\<close>

definition Git_Repository :: ProjectDetector where
  "Git_Repository =
     \<lparr>pd_name = ''Git Repository'',
      pd_check = (\<lambda>item children.
        if type item \<noteq> Folder then False
        else some_or_false children (\<lambda>child. name child = ''.git'')),
      pd_category = PROJECT_GIT,
      pd_reason = ''Git Repository''\<rparr>"

definition Nodejs_Project :: ProjectDetector where
  "Nodejs_Project =
     \<lparr>pd_name = ''Node.js Project'',
      pd_check = (\<lambda>item children.
        if type item \<noteq> Folder then False
        else some_or_false children (\<lambda>child. name child = ''package.json'')),
      pd_category = PROJECT_NODE,
      pd_reason = ''Node.js Project''\<rparr>"

definition Python_Project :: ProjectDetector where
  "Python_Project =
     \<lparr>pd_name = ''Python Project'',
      pd_check = (\<lambda>item children.
        if type item \<noteq> Folder then False
        else (let indicators = [''requirements.txt'', ''setup.py'', ''pyproject.toml'', ''Pipfile'']
              in some_or_false children (\<lambda>child. List.member indicators (name child)))),
      pd_category = PROJECT_PYTHON,
      pd_reason = ''Python Project''\<rparr>"

definition Unity_Project :: ProjectDetector where
  "Unity_Project =
     \<lparr>pd_name = ''Unity Project'',
      pd_check = (\<lambda>item children.
        if type item \<noteq> Folder then False
        else (let hasAssets = some_or_false children
                    (\<lambda>child. name child = ''Assets'' \<and> type child = Folder);
                  hasProjectSettings = some_or_false children
                    (\<lambda>child. name child = ''ProjectSettings'')
              in hasAssets \<and> hasProjectSettings)),
      pd_category = PROJECT_UNITY,
      pd_reason = ''Unity Project''\<rparr>"

definition Rust_Project :: ProjectDetector where
  "Rust_Project =
     \<lparr>pd_name = ''Rust Project'',
      pd_check = (\<lambda>item children.
        if type item \<noteq> Folder then False
        else some_or_false children (\<lambda>child. name child = ''Cargo.toml'')),
      pd_category = PROJECT_RUST,
      pd_reason = ''Rust Project''\<rparr>"

definition Go_Project :: ProjectDetector where
  "Go_Project =
     \<lparr>pd_name = ''Go Project'',
      pd_check = (\<lambda>item children.
        if type item \<noteq> Folder then False
        else some_or_false children (\<lambda>child. name child = ''go.mod'')),
      pd_category = PROJECT_GO,
      pd_reason = ''Go Project''\<rparr>"

definition Java_Maven_Project :: ProjectDetector where
  "Java_Maven_Project =
     \<lparr>pd_name = ''Java/Maven Project'',
      pd_check = (\<lambda>item children.
        if type item \<noteq> Folder then False
        else some_or_false children
               (\<lambda>child. name child = ''pom.xml'' \<or> name child = ''build.gradle'')),
      pd_category = PROJECT_JAVA,
      pd_reason = ''Java Project''\<rparr>"

definition PROJECT_DETECTORS :: "ProjectDetector list" where
  "PROJECT_DETECTORS =
     [Git_Repository, Nodejs_Project, Python_Project, Unity_Project, Rust_Project,
      Go_Project, Java_Maven_Project]"

text \<open>
  The extension table. A lookup \<^verbatim>\<open>EXTENSION_RULES[ext]\<close> is only made with an \<^verbatim>\<open>ext\<close> that
  starts with a dot, which no inherited property of an object does: the lookup is a
  lookup among the listed keys.
\<close>

definition EXTENSION_RULES :: "string \<rightharpoonup> ExtensionRule" where
  "EXTENSION_RULES = map_of
    [(''.pdf'', \<lparr>er_category = DOC_PDF, er_reason = ''PDF Document''\<rparr>),
     (''.docx'', \<lparr>er_category = DOC_OFFICE, er_reason = ''Word Document''\<rparr>),
     (''.doc'', \<lparr>er_category = DOC_OFFICE, er_reason = ''Word Document''\<rparr>),
     (''.xlsx'', \<lparr>er_category = DOC_OFFICE, er_reason = ''Excel Spreadsheet''\<rparr>),
     (''.xls'', \<lparr>er_category = DOC_OFFICE, er_reason = ''Excel Spreadsheet''\<rparr>),
     (''.pptx'', \<lparr>er_category = DOC_OFFICE, er_reason = ''PowerPoint''\<rparr>),
     (''.txt'', \<lparr>er_category = DOC_TEXT, er_reason = ''Text File''\<rparr>),
     (''.md'', \<lparr>er_category = DOC_TEXT, er_reason = ''Markdown''\<rparr>),
     (''.mp4'', \<lparr>er_category = MEDIA_VIDEO, er_reason = ''Video File''\<rparr>),
     (''.avi'', \<lparr>er_category = MEDIA_VIDEO, er_reason = ''Video File''\<rparr>),
     (''.mkv'', \<lparr>er_category = MEDIA_VIDEO, er_reason = ''Video File''\<rparr>),
     (''.mov'', \<lparr>er_category = MEDIA_VIDEO, er_reason = ''Video File''\<rparr>),
     (''.wmv'', \<lparr>er_category = MEDIA_VIDEO, er_reason = ''Video File''\<rparr>),
     (''.mp3'', \<lparr>er_category = MEDIA_AUDIO, er_reason = ''Audio File''\<rparr>),
     (''.wav'', \<lparr>er_category = MEDIA_AUDIO, er_reason = ''Audio File''\<rparr>),
     (''.flac'', \<lparr>er_category = MEDIA_AUDIO, er_reason = ''Audio File''\<rparr>),
     (''.m4a'', \<lparr>er_category = MEDIA_AUDIO, er_reason = ''Audio File''\<rparr>),
     (''.ogg'', \<lparr>er_category = MEDIA_AUDIO, er_reason = ''Audio File''\<rparr>),
     (''.jpg'', \<lparr>er_category = MEDIA_IMAGE, er_reason = ''Image File''\<rparr>),
     (''.jpeg'', \<lparr>er_category = MEDIA_IMAGE, er_reason = ''Image File''\<rparr>),
     (''.png'', \<lparr>er_category = MEDIA_IMAGE, er_reason = ''Image File''\<rparr>),
     (''.gif'', \<lparr>er_category = MEDIA_IMAGE, er_reason = ''Image File''\<rparr>),
     (''.bmp'', \<lparr>er_category = MEDIA_IMAGE, er_reason = ''Image File''\<rparr>),
     (''.svg'', \<lparr>er_category = MEDIA_IMAGE, er_reason = ''Vector Image''\<rparr>),
     (''.webp'', \<lparr>er_category = MEDIA_IMAGE, er_reason = ''Image File''\<rparr>),
     (''.zip'', \<lparr>er_category = ARCHIVE_COMPRESSED, er_reason = ''Archive''\<rparr>),
     (''.rar'', \<lparr>er_category = ARCHIVE_COMPRESSED, er_reason = ''Archive''\<rparr>),
     (''.7z'', \<lparr>er_category = ARCHIVE_COMPRESSED, er_reason = ''Archive''\<rparr>),
     (''.tar'', \<lparr>er_category = ARCHIVE_COMPRESSED, er_reason = ''Archive''\<rparr>),
     (''.gz'', \<lparr>er_category = ARCHIVE_COMPRESSED, er_reason = ''Archive''\<rparr>),
     (''.exe'', \<lparr>er_category = TOOL_EXECUTABLE, er_reason = ''Executable''\<rparr>),
     (''.msi'', \<lparr>er_category = TOOL_EXECUTABLE, er_reason = ''Installer''\<rparr>),
     (''.app'', \<lparr>er_category = TOOL_EXECUTABLE, er_reason = ''Application''\<rparr>),
     (''.dmg'', \<lparr>er_category = TOOL_EXECUTABLE, er_reason = ''Disk Image''\<rparr>)]"

definition NAME_PATTERNS :: "NamePattern list" where
  "NAME_PATTERNS =
    [\<lparr>np_pattern = RegExp ''invoice'' True, np_category = PRIVATE_FINANCIAL, np_reason = ''Financial Document''\<rparr>,
     \<lparr>np_pattern = RegExp ''receipt'' True, np_category = PRIVATE_FINANCIAL, np_reason = ''Financial Document''\<rparr>,
     \<lparr>np_pattern = RegExp ''tax'' True, np_category = PRIVATE_FINANCIAL, np_reason = ''Tax Document''\<rparr>,
     \<lparr>np_pattern = RegExp ''nda'' True, np_category = PRIVATE_LEGAL, np_reason = ''Legal Document''\<rparr>,
     \<lparr>np_pattern = RegExp ''contract'' True, np_category = PRIVATE_LEGAL, np_reason = ''Legal Document''\<rparr>,
     \<lparr>np_pattern = RegExp ''blood'' True, np_category = PRIVATE_MEDICAL, np_reason = ''Medical Record''\<rparr>,
     \<lparr>np_pattern = RegExp ''medical'' True, np_category = PRIVATE_MEDICAL, np_reason = ''Medical Record''\<rparr>,
     \<lparr>np_pattern = RegExp ''passport'' True, np_category = PRIVATE_IDENTITY, np_reason = ''ID Document''\<rparr>,
     \<lparr>np_pattern = RegExp ''screenshot'' True, np_category = MEDIA_IMAGE, np_reason = ''Screenshot''\<rparr>,
     \<lparr>np_pattern = RegExp ''export'' True, np_category = DOC_OFFICE, np_reason = ''Export''\<rparr>,
     \<lparr>np_pattern = RegExp ''cheatsheet'' True, np_category = DOC_TEXT, np_reason = ''Reference''\<rparr>,
     \<lparr>np_pattern = RegExp ''book'' True, np_category = DOC_PDF, np_reason = ''Book''\<rparr>]"

text \<open>
  The template literal of the staleness rule: an absent age would print as
  \<^verbatim>\<open>undefined\<close>.
\<close>

definition inactive_reason :: "FileNode \<Rightarrow> string" where
  "inactive_reason item =
     ''Inactive ('' @ (case age item of None \<Rightarrow> ''undefined'' | Some a \<Rightarrow> Number_toString a)
       @ ''d)''"

definition FOLDER_RULES :: "FolderRule list" where
  "FOLDER_RULES =
     [\<lparr>fr_check = (\<lambda>item. type item = Folder \<and>
          (case children item of None \<Rightarrow> 0 | Some cs \<Rightarrow> length cs) = 0),
       fr_category = VACUUM_EMPTY,
       fr_reason = StaticReason ''Empty Folder''\<rparr>,
      \<lparr>fr_check = (\<lambda>item. type item = Folder \<and> includes_str (name item) ''temp'' \<and>
          nullish0 (age item) > 30),
       fr_category = VACUUM_TEMP,
       fr_reason = StaticReason ''Old Temp Folder''\<rparr>,
      \<lparr>fr_check = (\<lambda>item. type item = Folder \<and> nullish0 (age item) > 365 \<and>
          \<not> startsWith (name item) ''.''),
       fr_category = ARCHIVE_STALE,
       fr_reason = ComputedReason inactive_reason\<rparr>,
      \<lparr>fr_check = (\<lambda>item. name item = ''.dotnet''),
       fr_category = SDK_DOTNET,
       fr_reason = StaticReason ''.NET SDK''\<rparr>,
      \<lparr>fr_check = (\<lambda>item. startsWith (name item) ''.'' \<and> type item = Folder),
       fr_category = CONFIG_DOTFILE,
       fr_reason = StaticReason ''Config Folder''\<rparr>]"

text \<open>
  The object \<^verbatim>\<open>{category, ...FILE_CATEGORIES[category], reason}\<close> that every stage
  returns.
\<close>

definition result :: "Category \<Rightarrow> string \<Rightarrow> DetectionResult" where
  "result c r =
     \<lparr>target = target (FILE_CATEGORIES c), priority = priority (FILE_CATEGORIES c),
      category = c, reason = r\<rparr>"

text \<open>
  \<^verbatim>\<open>detectFileCategory\<close>. Each \<^verbatim>\<open>for\<close> loop returns at the first entry whose test holds,
  which is \<open>find\<close>; \<^verbatim>\<open>null\<close> is \<open>None\<close>. The parameter \<^verbatim>\<open>children\<close> (here \<open>childrenOfNode\<close>,
  since \<open>children\<close> is the field of the node) defaults to \<^verbatim>\<open>null\<close> and is
  handed to the detectors as \<^verbatim>\<open>children ?? undefined\<close>: absent either way. Every property
  read of the source is of a required field or goes through \<^verbatim>\<open>?.\<close>, so no path raises.
\<close>

definition detectFileCategory :: "FileNode \<Rightarrow> FileNode list option \<Rightarrow> DetectionResult option" where
  "detectFileCategory item childrenOfNode =
     (case find (\<lambda>detector. pd_check detector item childrenOfNode) PROJECT_DETECTORS of
        Some detector \<Rightarrow> Some (result (pd_category detector) (pd_reason detector))
      | None \<Rightarrow>
     (case (if type item = Folder then find (\<lambda>rule. fr_check rule item) FOLDER_RULES
            else None) of
        Some rule \<Rightarrow>
          Some (result (fr_category rule)
            (case fr_reason rule of ComputedReason f \<Rightarrow> f item | StaticReason r \<Rightarrow> r))
      | None \<Rightarrow>
     (case find (\<lambda>pattern. test (np_pattern pattern) (name item)) NAME_PATTERNS of
        Some pattern \<Rightarrow> Some (result (np_category pattern) (np_reason pattern))
      | None \<Rightarrow>
     (if type item = File then
        (let lastDotIndex = lastIndexOf (name item) ''.'' in
         if lastDotIndex \<noteq> - 1 then
           (let ext = toLowerCase (substring (name item) lastDotIndex) in
            case EXTENSION_RULES ext of
              Some rule \<Rightarrow> Some (result (er_category rule) (er_reason rule))
            | None \<Rightarrow> None)
         else None)
      else None))))"

section \<open>Strings: what the operations compute\<close>

lemma startsWith_iff: "startsWith s p \<longleftrightarrow> (\<exists>t. s = p @ t)"
  by (induction s p rule: startsWith.induct) auto

lemma includes_str_iff: "includes_str s sub \<longleftrightarrow> (\<exists>pre post. s = pre @ sub @ post)"
proof (induction s)
  case Nil
  then show ?case by auto
next
  case (Cons c cs)
  have "(\<exists>pre post. c # cs = pre @ sub @ post) \<longleftrightarrow>
        (\<exists>post. c # cs = sub @ post) \<or> (\<exists>pre post. cs = pre @ sub @ post)"
  proof
    assume "\<exists>pre post. c # cs = pre @ sub @ post"
    then obtain pre post where eq: "c # cs = pre @ sub @ post" by blast
    show "(\<exists>post. c # cs = sub @ post) \<or> (\<exists>pre post. cs = pre @ sub @ post)"
    proof (cases pre)
      case Nil
      with eq show ?thesis by auto
    next
      case (Cons a pre')
      with eq have "cs = pre' @ sub @ post" by simp
      then show ?thesis by blast
    qed
  next
    assume "(\<exists>post. c # cs = sub @ post) \<or> (\<exists>pre post. cs = pre @ sub @ post)"
    then show "\<exists>pre post. c # cs = pre @ sub @ post"
    proof
      assume "\<exists>post. c # cs = sub @ post"
      then obtain post where "c # cs = [] @ sub @ post" by auto
      then show ?thesis by blast
    next
      assume "\<exists>pre post. cs = pre @ sub @ post"
      then obtain pre post where "c # cs = (c # pre) @ sub @ post" by auto
      then show ?thesis by blast
    qed
  qed
  with Cons show ?case by (simp add: startsWith_iff)
qed

lemma includes_str_map:
  assumes "s = pre @ mid @ post" and "map f mid = w"
  shows "includes_str (map f s) w"
  unfolding includes_str_iff using assms by auto

lemma lastIndexOf_from_none:
  "c \<notin> set s \<Longrightarrow> lastIndexOf_from s [c] i found = found"
  by (induction s arbitrary: i found) auto

lemma lastIndexOf_from_last:
  "c \<notin> set e \<Longrightarrow> lastIndexOf_from (stem @ c # e) [c] i found = int (i + length stem)"
  by (induction stem arbitrary: i found) (auto simp: lastIndexOf_from_none)

lemma lastIndexOf_none: "c \<notin> set s \<Longrightarrow> lastIndexOf s [c] = - 1"
  by (simp add: lastIndexOf_def lastIndexOf_from_none)

lemma lastIndexOf_last: "c \<notin> set e \<Longrightarrow> lastIndexOf (stem @ c # e) [c] = int (length stem)"
  by (simp add: lastIndexOf_def lastIndexOf_from_last)

lemma find_None_list_ex: "find P xs = None \<longleftrightarrow> \<not> list_ex P xs"
  by (auto simp: find_None_iff list_ex_iff)

lemma file_no_detector:
  "type item = File \<Longrightarrow> find (\<lambda>d. pd_check d item ch) PROJECT_DETECTORS = None"
  by (simp add: PROJECT_DETECTORS_def Git_Repository_def Nodejs_Project_def Python_Project_def
      Unity_Project_def Rust_Project_def Go_Project_def Java_Maven_Project_def)

lemma no_children_no_detector:
  "ch = None \<or> ch = Some [] \<Longrightarrow> find (\<lambda>d. pd_check d item ch) PROJECT_DETECTORS = None"
  by (auto simp add: PROJECT_DETECTORS_def Git_Repository_def Nodejs_Project_def Python_Project_def
      Unity_Project_def Rust_Project_def Go_Project_def Java_Maven_Project_def some_or_false_def)

lemma detector_type_only:
  "type item = type item' \<Longrightarrow>
   find (\<lambda>d. pd_check d item ch) PROJECT_DETECTORS = find (\<lambda>d. pd_check d item' ch) PROJECT_DETECTORS"
  by (simp add: PROJECT_DETECTORS_def Git_Repository_def Nodejs_Project_def Python_Project_def
      Unity_Project_def Rust_Project_def Go_Project_def Java_Maven_Project_def)

section \<open>Numbers: integers below \<open>2^53\<close> are printed in full\<close>

lemma binade_small: "n < 9007199254740992 \<Longrightarrow> binade n = 0"
  by (subst binade.simps) simp

lemma nearest_double_small: "n < 9007199254740992 \<Longrightarrow> nearest_double n = n"
  by (simp add: nearest_double_def binade_small)

lemma rounds_to_small: "x < 9007199254740992 \<Longrightarrow> rounds_to x v \<longleftrightarrow> v = x"
  by (auto simp: rounds_to_def binade_small Let_def)

lemma shortest_small: "0 \<le> x \<Longrightarrow> x < 9007199254740992 \<Longrightarrow> shortest x j = x"
proof (induction j)
  case 0
  then show ?case by simp
next
  case (Suc j)
  let ?p = "(10::int) ^ Suc j"
  have pos: "0 < ?p" by simp
  have "x mod ?p < ?p" using pos by (rule pos_mod_bound)
  then have hi: "(x div ?p) * ?p + ?p \<noteq> x"
    using div_mult_mod_eq [of x ?p] by linarith
  show ?case
    using Suc hi by (simp add: rounds_to_small Let_def del: power_Suc)
qed

lemma length_digits:
  "0 \<le> n \<Longrightarrow> n < 10 ^ Suc k \<Longrightarrow> length (digits n) \<le> Suc k"
proof (induction k arbitrary: n)
  case 0
  then show ?case by (subst digits.simps) simp
next
  case (Suc k)
  show ?case
  proof (cases "n < 10")
    case True
    then show ?thesis by (subst digits.simps) simp
  next
    case False
    with Suc.prems have "0 \<le> n div 10" and "n div 10 < 10 ^ Suc k" by auto
    then have "length (digits (n div 10)) \<le> Suc k" by (rule Suc.IH)
    with False show ?thesis by (subst digits.simps) simp
  qed
qed

lemma Number_toString_safe:
  assumes "0 \<le> n" and "n < 9007199254740992"
  shows "Number_toString n = digits n"
proof -
  have "n < 10 ^ Suc 20" using assms(2) by simp
  with assms(1) have "length (digits n) \<le> 21" using length_digits [of n 20] by simp
  with assms show ?thesis
    by (simp add: Number_toString_def Number_toString_nonneg_def nearest_double_small
        shortest_small Let_def)
qed

section \<open>The stages of detectFileCategory\<close>

lemma detect_File:
  "type item = File \<Longrightarrow>
   detectFileCategory item ch =
     (case find (\<lambda>p. test (np_pattern p) (name item)) NAME_PATTERNS of
        Some p \<Rightarrow> Some (result (np_category p) (np_reason p))
      | None \<Rightarrow>
          (if lastIndexOf (name item) ''.'' \<noteq> - 1
           then map_option (\<lambda>rule. result (er_category rule) (er_reason rule))
                  (EXTENSION_RULES (toLowerCase (substring (name item) (lastIndexOf (name item) ''.''))))
           else None))"
  by (simp add: detectFileCategory_def file_no_detector Let_def split: option.splits)

lemma detect_Folder:
  "type item = Folder \<Longrightarrow> \<not> list_ex (\<lambda>d. pd_check d item ch) PROJECT_DETECTORS \<Longrightarrow>
   detectFileCategory item ch =
     (case find (\<lambda>rule. fr_check rule item) FOLDER_RULES of
        Some rule \<Rightarrow> Some (result (fr_category rule)
          (case fr_reason rule of ComputedReason f \<Rightarrow> f item | StaticReason r \<Rightarrow> r))
      | None \<Rightarrow>
          (case find (\<lambda>p. test (np_pattern p) (name item)) NAME_PATTERNS of
             Some p \<Rightarrow> Some (result (np_category p) (np_reason p))
           | None \<Rightarrow> None))"
  using find_None_list_ex [of "\<lambda>d. pd_check d item ch" PROJECT_DETECTORS]
  by (simp add: detectFileCategory_def split: option.splits)

section \<open>Which rule can produce which category\<close>

lemmas detector_defs = PROJECT_DETECTORS_def Git_Repository_def Nodejs_Project_def
  Python_Project_def Unity_Project_def Rust_Project_def Go_Project_def Java_Maven_Project_def

lemma find_Some_in_set: "find P xs = Some x \<Longrightarrow> x \<in> set xs \<and> P x"
  by (auto simp: find_Some_iff)

lemma detect_Some_cases:
  assumes "detectFileCategory item ch = Some r"
  shows "(\<exists>d \<in> set PROJECT_DETECTORS. pd_check d item ch \<and> r = result (pd_category d) (pd_reason d))
       \<or> (type item = Folder \<and> (\<exists>rule \<in> set FOLDER_RULES. fr_check rule item \<and>
             r = result (fr_category rule)
                   (case fr_reason rule of ComputedReason f \<Rightarrow> f item | StaticReason x \<Rightarrow> x)))
       \<or> (\<exists>p \<in> set NAME_PATTERNS. test (np_pattern p) (name item) \<and>
             r = result (np_category p) (np_reason p))
       \<or> (type item = File \<and> (\<exists>e rule. EXTENSION_RULES e = Some rule \<and>
             r = result (er_category rule) (er_reason rule)))"
  using assms unfolding detectFileCategory_def Let_def
  by (auto split: option.splits if_splits dest!: find_Some_in_set)

lemma detector_category:
  "d \<in> set PROJECT_DETECTORS \<Longrightarrow>
   pd_category d \<in> {PROJECT_GIT, PROJECT_NODE, PROJECT_PYTHON, PROJECT_UNITY, PROJECT_RUST,
     PROJECT_GO, PROJECT_JAVA}"
  by (auto simp: detector_defs)

lemma pattern_category:
  "p \<in> set NAME_PATTERNS \<Longrightarrow>
   np_category p \<in> {PRIVATE_FINANCIAL, PRIVATE_LEGAL, PRIVATE_MEDICAL, PRIVATE_IDENTITY,
     MEDIA_IMAGE, DOC_OFFICE, DOC_TEXT, DOC_PDF}"
  by (auto simp: NAME_PATTERNS_def)

lemma extension_category:
  "EXTENSION_RULES e = Some rule \<Longrightarrow>
   er_category rule \<in> {DOC_PDF, DOC_OFFICE, DOC_TEXT, MEDIA_VIDEO, MEDIA_AUDIO, MEDIA_IMAGE,
     ARCHIVE_COMPRESSED, TOOL_EXECUTABLE}"
  unfolding EXTENSION_RULES_def by (drule map_of_SomeD) auto

lemma folder_rule_stale:
  "rule \<in> set FOLDER_RULES \<Longrightarrow> fr_check rule item \<Longrightarrow> fr_category rule = ARCHIVE_STALE \<Longrightarrow>
   365 < nullish0 (age item)"
  by (auto simp: FOLDER_RULES_def)

lemma folder_rule_temp:
  "rule \<in> set FOLDER_RULES \<Longrightarrow> fr_check rule item \<Longrightarrow> fr_category rule = VACUUM_TEMP \<Longrightarrow>
   30 < nullish0 (age item)"
  by (auto simp: FOLDER_RULES_def)

lemma category_result [simp]: "category (result c r) = c"
  by (simp add: result_def)

lemma stale_needs_age:
  assumes "detectFileCategory item ch = Some r" and "category r = ARCHIVE_STALE"
  shows "365 < nullish0 (age item)"
  using detect_Some_cases [OF assms(1)] assms(2)
  by (auto dest: detector_category pattern_category extension_category folder_rule_stale)

lemma temp_needs_age:
  assumes "detectFileCategory item ch = Some r" and "category r = VACUUM_TEMP"
  shows "30 < nullish0 (age item)"
  using detect_Some_cases [OF assms(1)] assms(2)
  by (auto dest: detector_category pattern_category extension_category folder_rule_temp)

lemma result_wellformed:
  assumes "detectFileCategory item ch = Some r"
  shows "r = result (category r) (reason r)"
  using detect_Some_cases [OF assms]
  by (auto simp: result_def)

section \<open>Classification is total\<close>

text \<open>
  C1. For every node and every children argument, present or absent, the classification
  is either nothing or one result, whose target and priority are those of its category
  in the table. An absent children argument classifies as an empty one, an absent
  \<^verbatim>\<open>children\<close> field as an empty one, and a folder with both absent is an empty folder.
\<close>

theorem detectFileCategory_total:
  "(detectFileCategory item ch = None \<or>
      (\<exists>r. detectFileCategory item ch = Some r \<and> r = result (category r) (reason r)))
   \<and> detectFileCategory item None = detectFileCategory item (Some [])
   \<and> detectFileCategory (FileNode n t None a c s) ch =
       detectFileCategory (FileNode n t (Some []) a c s) ch
   \<and> detectFileCategory (FileNode n Folder None a c s) None =
       Some (result VACUUM_EMPTY ''Empty Folder'')"
proof -
  have one: "detectFileCategory item ch = None \<or>
      (\<exists>r. detectFileCategory item ch = Some r \<and> r = result (category r) (reason r))"
    by (cases "detectFileCategory item ch") (auto dest: result_wellformed)
  have no_arg: "detectFileCategory item None = detectFileCategory item (Some [])"
    by (simp add: detectFileCategory_def no_children_no_detector)
  have absent: "detectFileCategory (FileNode n t None a c s) ch =
       detectFileCategory (FileNode n t (Some []) a c s) ch"
  proof (cases t)
    case File
    then show ?thesis
      by (simp add: detect_File cong del: option.case_cong_weak if_weak_cong)
  next
    case Folder
    then show ?thesis
      using detector_type_only
        [of "FileNode n Folder None a c s" "FileNode n Folder (Some []) a c s" ch]
      by (simp add: detectFileCategory_def FOLDER_RULES_def cong del: option.case_cong_weak)
  qed
  have empty: "detectFileCategory (FileNode n Folder None a c s) None =
       Some (result VACUUM_EMPTY ''Empty Folder'')"
    by (simp add: detectFileCategory_def FOLDER_RULES_def no_children_no_detector)
  from one no_arg absent empty show ?thesis by blast
qed

section \<open>Folder rules\<close>

text \<open>
  C2. A folder with zero children (the field absent or empty) that no project detector
  matches is classified \<^verbatim>\<open>VACUUM_EMPTY\<close>, whatever its name and age.
\<close>

theorem empty_folder_is_VACUUM_EMPTY:
  assumes "type item = Folder"
    and "children item = None \<or> children item = Some []"
    and "\<not> list_ex (\<lambda>d. pd_check d item ch) PROJECT_DETECTORS"
  shows "detectFileCategory item ch =
           Some \<lparr>target = ''VACUUM'', priority = 3, category = VACUUM_EMPTY,
                 reason = ''Empty Folder''\<rparr>"
  using assms(1,2) by (auto simp add: detect_Folder [OF assms(1,3)] FOLDER_RULES_def result_def)

text \<open>
  The same at a folder named \<^verbatim>\<open>.dotnet\<close>, 400 days old, with an empty list of children:
  the empty-folder rule wins over the SDK rule and over the staleness rule.
\<close>

theorem empty_folder_is_VACUUM_EMPTY_witness:
  "type (FileNode ''.dotnet'' Folder (Some []) (Some 400) None None) = Folder
   \<and> \<not> list_ex (\<lambda>d. pd_check d (FileNode ''.dotnet'' Folder (Some []) (Some 400) None None) None)
         PROJECT_DETECTORS
   \<and> detectFileCategory (FileNode ''.dotnet'' Folder (Some []) (Some 400) None None) None =
       Some \<lparr>target = ''VACUUM'', priority = 3, category = VACUUM_EMPTY,
             reason = ''Empty Folder''\<rparr>"
proof -
  let ?item = "FileNode ''.dotnet'' Folder (Some []) (Some 400) None None"
  have t: "type ?item = Folder" by simp
  have c: "children ?item = None \<or> children ?item = Some []" by simp
  have d: "\<not> list_ex (\<lambda>d. pd_check d ?item None) PROJECT_DETECTORS"
    by (simp add: find_None_list_ex [symmetric] no_children_no_detector)
  from t d empty_folder_is_VACUUM_EMPTY [OF t c d] show ?thesis by blast
qed

text \<open>
  C7. A folder whose age is absent is classified exactly as the same folder with age
  \<open>0\<close>, and never as \<^verbatim>\<open>VACUUM_TEMP\<close> or \<^verbatim>\<open>ARCHIVE_STALE\<close>.
\<close>

theorem absent_age_is_age_zero:
  "detectFileCategory (FileNode n Folder cs None c s) ch =
     detectFileCategory (FileNode n Folder cs (Some 0) c s) ch
   \<and> map_option category (detectFileCategory (FileNode n Folder cs None c s) ch) \<noteq> Some VACUUM_TEMP
   \<and> map_option category (detectFileCategory (FileNode n Folder cs None c s) ch) \<noteq> Some ARCHIVE_STALE"
proof -
  have same: "detectFileCategory (FileNode n Folder cs None c s) ch =
     detectFileCategory (FileNode n Folder cs (Some 0) c s) ch"
    by (simp add: detectFileCategory_def FOLDER_RULES_def nullish0_def
        detector_type_only [of "FileNode n Folder cs None c s" "FileNode n Folder cs (Some 0) c s"]
        cong del: option.case_cong_weak)
  have temp: "map_option category (detectFileCategory (FileNode n Folder cs None c s) ch) \<noteq> Some VACUUM_TEMP"
    using temp_needs_age [of "FileNode n Folder cs None c s" ch]
    by (auto simp: nullish0_def)
  have stale: "map_option category (detectFileCategory (FileNode n Folder cs None c s) ch) \<noteq> Some ARCHIVE_STALE"
    using stale_needs_age [of "FileNode n Folder cs None c s" ch]
    by (auto simp: nullish0_def)
  from same temp stale show ?thesis by blast
qed

lemma digits_400: "Number_toString 400 = ''400''"
  by code_simp

lemma Number_toString_exponent: "Number_toString 1000000000000000000000 = ''1e+21''"
  by code_simp

text \<open>
  C5. A folder that no project detector matches, with at least one child, whose name has
  no \<^verbatim>\<open>temp\<close> in it and no leading dot, and whose age is above 365, is classified
  \<^verbatim>\<open>ARCHIVE_STALE\<close> with the age printed into the reason. No node whose age is 365 or
  less, or absent, is ever classified \<^verbatim>\<open>ARCHIVE_STALE\<close>: the threshold is 365, not 180.
\<close>

theorem stale_folder_is_ARCHIVE_STALE:
  "(type item = Folder \<and> \<not> list_ex (\<lambda>d. pd_check d item ch) PROJECT_DETECTORS \<and>
    children item = Some (k # ks) \<and> \<not> includes_str (name item) ''temp'' \<and>
    \<not> startsWith (name item) ''.'' \<and> age item = Some a \<and> 365 < a \<longrightarrow>
      detectFileCategory item ch =
        Some \<lparr>target = ''99_Archives/2024'', priority = 4, category = ARCHIVE_STALE,
              reason = ''Inactive ('' @ Number_toString a @ ''d)''\<rparr>)
   \<and> (nullish0 (age item) \<le> 365 \<longrightarrow>
        map_option category (detectFileCategory item ch) \<noteq> Some ARCHIVE_STALE)"
proof (intro conjI impI)
  assume h: "type item = Folder \<and> \<not> list_ex (\<lambda>d. pd_check d item ch) PROJECT_DETECTORS \<and>
    children item = Some (k # ks) \<and> \<not> includes_str (name item) ''temp'' \<and>
    \<not> startsWith (name item) ''.'' \<and> age item = Some a \<and> 365 < a"
  then have folder: "type item = Folder"
    and none: "\<not> list_ex (\<lambda>d. pd_check d item ch) PROJECT_DETECTORS" by simp_all
  from h show "detectFileCategory item ch =
        Some \<lparr>target = ''99_Archives/2024'', priority = 4, category = ARCHIVE_STALE,
              reason = ''Inactive ('' @ Number_toString a @ ''d)''\<rparr>"
    by (simp add: detect_Folder [OF folder none] FOLDER_RULES_def nullish0_def result_def
        inactive_reason_def)
next
  assume "nullish0 (age item) \<le> 365"
  then show "map_option category (detectFileCategory item ch) \<noteq> Some ARCHIVE_STALE"
    using stale_needs_age [of item ch] by fastforce
qed

text \<open>
  At a folder of 400 days, at the same folder aged 365 and 181 days, and at an age of
  \<open>10^21\<close> days, which is printed with an exponent.
\<close>

theorem stale_folder_is_ARCHIVE_STALE_witness:
  "detectFileCategory
     (FileNode ''OldProj'' Folder (Some [FileNode ''main.c'' File None None None None])
        (Some 400) None None) None =
     Some \<lparr>target = ''99_Archives/2024'', priority = 4, category = ARCHIVE_STALE,
           reason = ''Inactive (400d)''\<rparr>
   \<and> map_option category (detectFileCategory
        (FileNode ''OldProj'' Folder (Some [FileNode ''main.c'' File None None None None])
          (Some 365) None None) None) \<noteq> Some ARCHIVE_STALE
   \<and> map_option category (detectFileCategory
        (FileNode ''OldProj'' Folder (Some [FileNode ''main.c'' File None None None None])
          (Some 181) None None) None) \<noteq> Some ARCHIVE_STALE
   \<and> detectFileCategory
     (FileNode ''OldProj'' Folder (Some [FileNode ''main.c'' File None None None None])
        (Some 1000000000000000000000) None None) None =
     Some \<lparr>target = ''99_Archives/2024'', priority = 4, category = ARCHIVE_STALE,
           reason = ''Inactive (1e+21d)''\<rparr>"
proof -
  let ?kid = "FileNode ''main.c'' File None None None None"
  let ?item = "\<lambda>a. FileNode ''OldProj'' Folder (Some [?kid]) (Some a) None None"
  have d: "\<not> list_ex (\<lambda>d. pd_check d (?item 400) None) PROJECT_DETECTORS"
    by (simp add: find_None_list_ex [symmetric] no_children_no_detector)
  have d': "\<not> list_ex (\<lambda>d. pd_check d (?item 1000000000000000000000) None) PROJECT_DETECTORS"
    by (simp add: find_None_list_ex [symmetric] no_children_no_detector)
  have n: "\<not> includes_str ''OldProj'' ''temp''" by simp
  have "detectFileCategory (?item 400) None =
     Some \<lparr>target = ''99_Archives/2024'', priority = 4, category = ARCHIVE_STALE,
           reason = ''Inactive (400d)''\<rparr>"
    using stale_folder_is_ARCHIVE_STALE [of "?item 400" None ?kid "[]" 400] d n
    by (simp add: digits_400)
  moreover have "map_option category (detectFileCategory (?item 365) None) \<noteq> Some ARCHIVE_STALE"
    using stale_folder_is_ARCHIVE_STALE [of "?item 365" None ?kid "[]" 400]
    by (simp add: nullish0_def)
  moreover have "map_option category (detectFileCategory (?item 181) None) \<noteq> Some ARCHIVE_STALE"
    using stale_folder_is_ARCHIVE_STALE [of "?item 181" None ?kid "[]" 400]
    by (simp add: nullish0_def)
  moreover have "detectFileCategory (?item 1000000000000000000000) None =
     Some \<lparr>target = ''99_Archives/2024'', priority = 4, category = ARCHIVE_STALE,
           reason = ''Inactive (1e+21d)''\<rparr>"
    using stale_folder_is_ARCHIVE_STALE
      [of "?item 1000000000000000000000" None ?kid "[]" 1000000000000000000000] d' n
    by (simp add: Number_toString_exponent)
  ultimately show ?thesis by blast
qed

lemma my_temp_build_no_pattern:
  "\<not> list_ex (\<lambda>p. test (np_pattern p) ''my-temp-build'') NAME_PATTERNS"
  by code_simp

text \<open>
  C6, as the code has it. A folder named \<^verbatim>\<open>my-temp-build\<close> with at least one child that no
  project detector matches is classified \<^verbatim>\<open>VACUUM_TEMP\<close> at 45 days; at 10 days no folder
  rule and no name pattern matches it and the classification is nothing.
\<close>

theorem my_temp_build_with_children:
  "(\<not> list_ex (\<lambda>d. pd_check d (FileNode ''my-temp-build'' Folder (Some (k # ks)) (Some 45) c s) ch)
        PROJECT_DETECTORS \<longrightarrow>
      detectFileCategory (FileNode ''my-temp-build'' Folder (Some (k # ks)) (Some 45) c s) ch =
        Some \<lparr>target = ''VACUUM'', priority = 6, category = VACUUM_TEMP,
              reason = ''Old Temp Folder''\<rparr>)
   \<and> (\<not> list_ex (\<lambda>d. pd_check d (FileNode ''my-temp-build'' Folder (Some (k # ks)) (Some 10) c s) ch)
        PROJECT_DETECTORS \<longrightarrow>
      \<not> list_ex (\<lambda>rule. fr_check rule (FileNode ''my-temp-build'' Folder (Some (k # ks)) (Some 10) c s))
          FOLDER_RULES \<and>
      \<not> list_ex (\<lambda>p. test (np_pattern p)
            (name (FileNode ''my-temp-build'' Folder (Some (k # ks)) (Some 10) c s))) NAME_PATTERNS \<and>
      detectFileCategory (FileNode ''my-temp-build'' Folder (Some (k # ks)) (Some 10) c s) ch = None)"
proof (intro conjI impI)
  let ?i45 = "FileNode ''my-temp-build'' Folder (Some (k # ks)) (Some 45) c s"
  let ?i10 = "FileNode ''my-temp-build'' Folder (Some (k # ks)) (Some 10) c s"
  have f45: "type ?i45 = Folder" and f10: "type ?i10 = Folder" by simp_all
  have pat: "find (\<lambda>p. test (np_pattern p) ''my-temp-build'') NAME_PATTERNS = None"
    using my_temp_build_no_pattern by (simp add: find_None_list_ex)
  {
    assume d: "\<not> list_ex (\<lambda>d. pd_check d ?i45 ch) PROJECT_DETECTORS"
    show "detectFileCategory ?i45 ch =
        Some \<lparr>target = ''VACUUM'', priority = 6, category = VACUUM_TEMP,
              reason = ''Old Temp Folder''\<rparr>"
      by (simp add: detect_Folder [OF f45 d] FOLDER_RULES_def nullish0_def result_def)
  }
  {
    assume d: "\<not> list_ex (\<lambda>d. pd_check d ?i10 ch) PROJECT_DETECTORS"
    show "\<not> list_ex (\<lambda>rule. fr_check rule ?i10) FOLDER_RULES"
      by (simp add: FOLDER_RULES_def nullish0_def)
    show "\<not> list_ex (\<lambda>p. test (np_pattern p) (name ?i10)) NAME_PATTERNS"
      using my_temp_build_no_pattern by simp
    show "detectFileCategory ?i10 ch = None"
      by (simp add: detect_Folder [OF f10 d] FOLDER_RULES_def nullish0_def pat)
  }
qed

text \<open>At a folder with one child, and no children argument.\<close>

theorem my_temp_build_with_children_witness:
  "detectFileCategory
     (FileNode ''my-temp-build'' Folder (Some [FileNode ''out.o'' File None None None None])
        (Some 45) None None) None =
     Some \<lparr>target = ''VACUUM'', priority = 6, category = VACUUM_TEMP,
           reason = ''Old Temp Folder''\<rparr>
   \<and> detectFileCategory
     (FileNode ''my-temp-build'' Folder (Some [FileNode ''out.o'' File None None None None])
        (Some 10) None None) None = None"
proof -
  let ?kid = "FileNode ''out.o'' File None None None None"
  let ?item = "\<lambda>a. FileNode ''my-temp-build'' Folder (Some [?kid]) (Some a) None None"
  have d: "\<not> list_ex (\<lambda>d. pd_check d (?item a) None) PROJECT_DETECTORS" for a
    by (simp add: find_None_list_ex [symmetric] no_children_no_detector)
  show ?thesis
    using my_temp_build_with_children [of ?kid "[]" None None None] d [of 45] d [of 10]
    by blast
qed

text \<open>
  C6 as stated says nothing of the children. Without children the same folder is an
  empty folder, at 45 days and at 10 days.
\<close>

theorem my_temp_build_counterexample:
  "\<not> list_ex (\<lambda>d. pd_check d (FileNode ''my-temp-build'' Folder None (Some 45) None None) None)
        PROJECT_DETECTORS
   \<and> detectFileCategory (FileNode ''my-temp-build'' Folder None (Some 45) None None) None =
       Some \<lparr>target = ''VACUUM'', priority = 3, category = VACUUM_EMPTY,
             reason = ''Empty Folder''\<rparr>
   \<and> detectFileCategory (FileNode ''my-temp-build'' Folder None (Some 45) None None) None \<noteq>
       Some \<lparr>target = ''VACUUM'', priority = 6, category = VACUUM_TEMP,
             reason = ''Old Temp Folder''\<rparr>
   \<and> detectFileCategory (FileNode ''my-temp-build'' Folder None (Some 10) None None) None \<noteq> None"
  by (simp add: find_None_list_ex [symmetric] no_children_no_detector detectFileCategory_def
      FOLDER_RULES_def result_def)

section \<open>Project detectors\<close>

text \<open>
  C4, as the code has it. The Unity detector matches exactly when the item is a folder
  and the children handed to it hold a child named \<^verbatim>\<open>Assets\<close> that is a folder and a child
  named \<^verbatim>\<open>ProjectSettings\<close>, of either type.
\<close>

theorem unity_detector_matches_iff:
  "pd_check Unity_Project item ch \<longleftrightarrow>
     type item = Folder \<and>
     (\<exists>cs. ch = Some cs \<and>
        (\<exists>child \<in> set cs. name child = ''Assets'' \<and> type child = Folder) \<and>
        (\<exists>child \<in> set cs. name child = ''ProjectSettings''))"
  by (cases ch) (auto simp: Unity_Project_def some_or_false_def list_ex_iff)

text \<open>
  C4 as stated asks for a \<^verbatim>\<open>ProjectSettings\<close> child that is a folder. The detector
  matches a folder whose \<^verbatim>\<open>ProjectSettings\<close> child is a file.
\<close>

theorem unity_detector_counterexample:
  "\<not> (pd_check Unity_Project (FileNode ''Game'' Folder None None None None)
         (Some [FileNode ''Assets'' Folder None None None None,
                FileNode ''ProjectSettings'' File None None None None]) \<longleftrightarrow>
       list_ex (\<lambda>child. name child = ''Assets'' \<and> type child = Folder)
         [FileNode ''Assets'' Folder None None None None,
          FileNode ''ProjectSettings'' File None None None None] \<and>
       list_ex (\<lambda>child. name child = ''ProjectSettings'' \<and> type child = Folder)
         [FileNode ''Assets'' Folder None None None None,
          FileNode ''ProjectSettings'' File None None None None])"
  by (simp add: Unity_Project_def some_or_false_def)

section \<open>Name patterns\<close>

lemma invoice_first:
  "find (\<lambda>p. test (np_pattern p) ''Annual_Tax_Invoice_2024.pdf'') NAME_PATTERNS =
     Some \<lparr>np_pattern = RegExp ''invoice'' True, np_category = PRIVATE_FINANCIAL,
           np_reason = ''Financial Document''\<rparr>"
  by code_simp

lemma tax_matches: "test (RegExp ''tax'' True) ''Annual_Tax_Invoice_2024.pdf''"
  by code_simp

lemma pdf_ext: "EXTENSION_RULES (toLowerCase (substring ''Annual_Tax_Invoice_2024.pdf''
          (lastIndexOf ''Annual_Tax_Invoice_2024.pdf'' ''.''))) =
        Some \<lparr>er_category = DOC_PDF, er_reason = ''PDF Document''\<rparr>"
  by code_simp

text \<open>
  C3. A file named \<^verbatim>\<open>Annual_Tax_Invoice_2024.pdf\<close> is classified \<^verbatim>\<open>PRIVATE_FINANCIAL\<close> with
  the reason of the \<^verbatim>\<open>invoice\<close> pattern, although the \<^verbatim>\<open>tax\<close> pattern matches the name
  as well and the extension table has \<^verbatim>\<open>.pdf\<close>.
\<close>

theorem tax_invoice_is_financial:
  "detectFileCategory (FileNode ''Annual_Tax_Invoice_2024.pdf'' File cs a c s) ch =
     Some \<lparr>target = ''04_Private/Financial'', priority = 9, category = PRIVATE_FINANCIAL,
           reason = ''Financial Document''\<rparr>
   \<and> test (RegExp ''tax'' True) ''Annual_Tax_Invoice_2024.pdf''
   \<and> EXTENSION_RULES (toLowerCase (substring ''Annual_Tax_Invoice_2024.pdf''
          (lastIndexOf ''Annual_Tax_Invoice_2024.pdf'' ''.''))) =
        Some \<lparr>er_category = DOC_PDF, er_reason = ''PDF Document''\<rparr>"
  by (simp add: detect_File invoice_first tax_matches pdf_ext result_def)

lemma canonical_tax: "map Canonicalize ''tax'' = ''TAX''"
  by code_simp

lemma syntax_overview_pattern:
  "find (\<lambda>p. test (np_pattern p) ''syntax_overview.txt'') NAME_PATTERNS =
     Some \<lparr>np_pattern = RegExp ''tax'' True, np_category = PRIVATE_FINANCIAL,
           np_reason = ''Tax Document''\<rparr>"
  by code_simp

lemma syntax_overview_ext:
  "EXTENSION_RULES (toLowerCase (substring ''syntax_overview.txt''
       (lastIndexOf ''syntax_overview.txt'' ''.''))) =
     Some \<lparr>er_category = DOC_TEXT, er_reason = ''Text File''\<rparr>"
  by code_simp

text \<open>
  C10. A node that reaches the name-pattern stage and whose name holds the letters
  \<^verbatim>\<open>tax\<close> anywhere, in either case, and neither \<^verbatim>\<open>invoice\<close> nor \<^verbatim>\<open>receipt\<close>, is classified
  \<^verbatim>\<open>PRIVATE_FINANCIAL\<close> with the reason of the \<^verbatim>\<open>tax\<close> pattern. So is the file
  \<^verbatim>\<open>syntax_overview.txt\<close>, whose extension alone would make it a text file.
\<close>

theorem tax_pattern_is_unanchored:
  "(\<not> list_ex (\<lambda>d. pd_check d item ch) PROJECT_DETECTORS \<and>
    (type item = File \<or> \<not> list_ex (\<lambda>rule. fr_check rule item) FOLDER_RULES) \<and>
    name item = pre @ mid @ post \<and> map Canonicalize mid = ''TAX'' \<and>
    \<not> test (RegExp ''invoice'' True) (name item) \<and>
    \<not> test (RegExp ''receipt'' True) (name item) \<longrightarrow>
      detectFileCategory item ch =
        Some \<lparr>target = ''04_Private/Financial'', priority = 9, category = PRIVATE_FINANCIAL,
              reason = ''Tax Document''\<rparr>)
   \<and> detectFileCategory (FileNode ''syntax_overview.txt'' File cs a c s) ch =
       Some \<lparr>target = ''04_Private/Financial'', priority = 9, category = PRIVATE_FINANCIAL,
             reason = ''Tax Document''\<rparr>
   \<and> EXTENSION_RULES (toLowerCase (substring ''syntax_overview.txt''
         (lastIndexOf ''syntax_overview.txt'' ''.''))) =
       Some \<lparr>er_category = DOC_TEXT, er_reason = ''Text File''\<rparr>"
proof (intro conjI impI)
  assume h: "\<not> list_ex (\<lambda>d. pd_check d item ch) PROJECT_DETECTORS \<and>
    (type item = File \<or> \<not> list_ex (\<lambda>rule. fr_check rule item) FOLDER_RULES) \<and>
    name item = pre @ mid @ post \<and> map Canonicalize mid = ''TAX'' \<and>
    \<not> test (RegExp ''invoice'' True) (name item) \<and>
    \<not> test (RegExp ''receipt'' True) (name item)"
  then have "includes_str (map Canonicalize (name item)) ''TAX''"
    using includes_str_map [of "name item" pre mid post Canonicalize "''TAX''"] by simp
  then have tax: "test (RegExp ''tax'' True) (name item)"
    by (simp only: test_def RegExp.sel if_True canonical_tax)
  from h have "\<not> test (RegExp ''invoice'' True) (name item)"
    and "\<not> test (RegExp ''receipt'' True) (name item)" by blast+
  with tax have pat: "find (\<lambda>p. test (np_pattern p) (name item)) NAME_PATTERNS =
     Some \<lparr>np_pattern = RegExp ''tax'' True, np_category = PRIVATE_FINANCIAL,
           np_reason = ''Tax Document''\<rparr>"
    by (simp add: NAME_PATTERNS_def)
  show "detectFileCategory item ch =
        Some \<lparr>target = ''04_Private/Financial'', priority = 9, category = PRIVATE_FINANCIAL,
              reason = ''Tax Document''\<rparr>"
  proof (cases "type item")
    case File
    then show ?thesis by (simp add: detect_File pat result_def)
  next
    case Folder
    with h have none: "\<not> list_ex (\<lambda>d. pd_check d item ch) PROJECT_DETECTORS"
      and rules: "find (\<lambda>rule. fr_check rule item) FOLDER_RULES = None"
      by (simp_all add: find_None_list_ex)
    show ?thesis by (simp add: detect_Folder [OF Folder none] rules pat result_def)
  qed
next
  show "detectFileCategory (FileNode ''syntax_overview.txt'' File cs a c s) ch =
       Some \<lparr>target = ''04_Private/Financial'', priority = 9, category = PRIVATE_FINANCIAL,
             reason = ''Tax Document''\<rparr>"
    by (simp add: detect_File syntax_overview_pattern result_def)
next
  show "EXTENSION_RULES (toLowerCase (substring ''syntax_overview.txt''
         (lastIndexOf ''syntax_overview.txt'' ''.''))) =
       Some \<lparr>er_category = DOC_TEXT, er_reason = ''Text File''\<rparr>"
    by (rule syntax_overview_ext)
qed

text \<open>At a folder named \<^verbatim>\<open>Taxes_2023\<close> with one child, 20 days old.\<close>

lemma taxes_no_invoice:
  "\<not> test (RegExp ''invoice'' True) ''Taxes_2023'' \<and> \<not> test (RegExp ''receipt'' True) ''Taxes_2023''"
  by code_simp

lemma canonical_Tax: "map Canonicalize ''Tax'' = ''TAX''"
  by code_simp

theorem tax_pattern_is_unanchored_witness:
  "detectFileCategory
     (FileNode ''Taxes_2023'' Folder (Some [FileNode ''w2.pdf'' File None None None None])
        (Some 20) None None) None =
     Some \<lparr>target = ''04_Private/Financial'', priority = 9, category = PRIVATE_FINANCIAL,
           reason = ''Tax Document''\<rparr>"
proof -
  let ?item = "FileNode ''Taxes_2023'' Folder (Some [FileNode ''w2.pdf'' File None None None None])
        (Some 20) None None"
  have d: "\<not> list_ex (\<lambda>d. pd_check d ?item None) PROJECT_DETECTORS"
    by (simp add: find_None_list_ex [symmetric] no_children_no_detector)
  have r: "\<not> list_ex (\<lambda>rule. fr_check rule ?item) FOLDER_RULES"
    by (simp add: FOLDER_RULES_def nullish0_def)
  have n: "name ?item = [] @ ''Tax'' @ ''es_2023''" by simp
  show ?thesis
    using tax_pattern_is_unanchored [where item = ?item and ch = None and pre = "[]"
        and mid = "''Tax''" and post = "''es_2023''"] d r taxes_no_invoice canonical_Tax
    by simp
qed

section \<open>Extension stage\<close>

lemma substring_final_dot:
  "CHR ''.'' \<notin> set e \<Longrightarrow>
   substring (stem @ ''.'' @ e) (lastIndexOf (stem @ ''.'' @ e) ''.'') = ''.'' @ e"
  using lastIndexOf_last [of "CHR ''.''" e stem] by (simp add: substring_def)

lemma report_pdf_no_pattern:
  "find (\<lambda>p. test (np_pattern p) ''REPORT.PDF'') NAME_PATTERNS = None"
  by code_simp

lemma report_pdf_ext:
  "EXTENSION_RULES (toLowerCase (substring ''REPORT.PDF'' (lastIndexOf ''REPORT.PDF'' ''.''))) =
     Some \<lparr>er_category = DOC_PDF, er_reason = ''PDF Document''\<rparr>"
  by code_simp

lemma report_pdf_dot: "lastIndexOf ''REPORT.PDF'' ''.'' \<noteq> - 1"
  by code_simp

text \<open>
  C8. The extension stage is the last one and is for files only. A folder that the three
  earlier stages decline is not classified, whatever its name ends in. A file that a name
  pattern matches is classified by that pattern. A file that no name pattern matches is
  classified by looking up the lower-cased part of its name from the final dot on, and
  is not classified when its name has no dot. \<^verbatim>\<open>REPORT.PDF\<close> is a PDF document.
\<close>

theorem extension_stage_last_and_files_only:
  "(type item = Folder \<and> \<not> list_ex (\<lambda>d. pd_check d item ch) PROJECT_DETECTORS \<and>
    \<not> list_ex (\<lambda>rule. fr_check rule item) FOLDER_RULES \<and>
    \<not> list_ex (\<lambda>p. test (np_pattern p) (name item)) NAME_PATTERNS \<longrightarrow>
      detectFileCategory item ch = None)
   \<and> (type item = File \<and>
       find (\<lambda>p. test (np_pattern p) (name item)) NAME_PATTERNS = Some p \<longrightarrow>
      detectFileCategory item ch = Some (result (np_category p) (np_reason p)))
   \<and> (type item = File \<and> \<not> list_ex (\<lambda>p. test (np_pattern p) (name item)) NAME_PATTERNS \<and>
       name item = stem @ ''.'' @ e \<and> CHR ''.'' \<notin> set e \<longrightarrow>
      detectFileCategory item ch =
        map_option (\<lambda>rule. result (er_category rule) (er_reason rule))
          (EXTENSION_RULES (toLowerCase (''.'' @ e))))
   \<and> (type item = File \<and> \<not> list_ex (\<lambda>p. test (np_pattern p) (name item)) NAME_PATTERNS \<and>
       CHR ''.'' \<notin> set (name item) \<longrightarrow>
      detectFileCategory item ch = None)
   \<and> detectFileCategory (FileNode ''REPORT.PDF'' File cs a c s) ch =
       Some \<lparr>target = ''03_Library/Documents'', priority = 5, category = DOC_PDF,
             reason = ''PDF Document''\<rparr>"
proof (intro conjI impI)
  assume h: "type item = Folder \<and> \<not> list_ex (\<lambda>d. pd_check d item ch) PROJECT_DETECTORS \<and>
    \<not> list_ex (\<lambda>rule. fr_check rule item) FOLDER_RULES \<and>
    \<not> list_ex (\<lambda>p. test (np_pattern p) (name item)) NAME_PATTERNS"
  then have "type item = Folder" and "\<not> list_ex (\<lambda>d. pd_check d item ch) PROJECT_DETECTORS"
    by simp_all
  from detect_Folder [OF this] h show "detectFileCategory item ch = None"
    by (simp add: find_None_list_ex [symmetric])
next
  assume "type item = File \<and>
       find (\<lambda>p. test (np_pattern p) (name item)) NAME_PATTERNS = Some p"
  then show "detectFileCategory item ch = Some (result (np_category p) (np_reason p))"
    by (simp add: detect_File)
next
  assume h: "type item = File \<and> \<not> list_ex (\<lambda>p. test (np_pattern p) (name item)) NAME_PATTERNS \<and>
       name item = stem @ ''.'' @ e \<and> CHR ''.'' \<notin> set e"
  then have dot: "lastIndexOf (name item) ''.'' = int (length stem)"
    using lastIndexOf_last [of "CHR ''.''" e stem] by simp
  from h have ext: "substring (name item) (lastIndexOf (name item) ''.'') = ''.'' @ e"
    using substring_final_dot [of e stem] by simp
  from h have "\<not> list_ex (\<lambda>p. test (np_pattern p) (name item)) NAME_PATTERNS" by blast
  then have "find (\<lambda>p. test (np_pattern p) (name item)) NAME_PATTERNS = None"
    by (simp add: find_None_list_ex)
  with h dot ext show "detectFileCategory item ch =
        map_option (\<lambda>rule. result (er_category rule) (er_reason rule))
          (EXTENSION_RULES (toLowerCase (''.'' @ e)))"
    by (simp add: detect_File)
next
  assume h: "type item = File \<and> \<not> list_ex (\<lambda>p. test (np_pattern p) (name item)) NAME_PATTERNS \<and>
       CHR ''.'' \<notin> set (name item)"
  then have "lastIndexOf (name item) ''.'' = - 1"
    using lastIndexOf_none [of "CHR ''.''" "name item"] by simp
  moreover from h have "find (\<lambda>p. test (np_pattern p) (name item)) NAME_PATTERNS = None"
    by (simp add: find_None_list_ex)
  ultimately show "detectFileCategory item ch = None"
    using h by (simp add: detect_File)
next
  show "detectFileCategory (FileNode ''REPORT.PDF'' File cs a c s) ch =
       Some \<lparr>target = ''03_Library/Documents'', priority = 5, category = DOC_PDF,
             reason = ''PDF Document''\<rparr>"
    by (simp add: detect_File report_pdf_no_pattern report_pdf_ext report_pdf_dot result_def)
qed

text \<open>
  At a folder named \<^verbatim>\<open>photos.zip\<close>, and at the files \<^verbatim>\<open>screenshot_2024.png\<close>, \<^verbatim>\<open>archive.zip\<close>
  and \<^verbatim>\<open>Makefile\<close>.
\<close>

lemma photos_zip_no_pattern:
  "\<not> list_ex (\<lambda>p. test (np_pattern p) ''photos.zip'') NAME_PATTERNS"
  by code_simp

lemma screenshot_pattern:
  "find (\<lambda>p. test (np_pattern p) ''screenshot_2024.png'') NAME_PATTERNS =
     Some \<lparr>np_pattern = RegExp ''screenshot'' True, np_category = MEDIA_IMAGE,
           np_reason = ''Screenshot''\<rparr>"
  by code_simp

lemma archive_zip_no_pattern:
  "\<not> list_ex (\<lambda>p. test (np_pattern p) ''archive.zip'') NAME_PATTERNS"
  by code_simp

lemma archive_zip_ext:
  "EXTENSION_RULES (toLowerCase ''.zip'') =
     Some \<lparr>er_category = ARCHIVE_COMPRESSED, er_reason = ''Archive''\<rparr>"
  by code_simp

lemma makefile_no_pattern:
  "\<not> list_ex (\<lambda>p. test (np_pattern p) ''Makefile'') NAME_PATTERNS"
  by code_simp

theorem extension_stage_last_and_files_only_witness:
  "detectFileCategory
     (FileNode ''photos.zip'' Folder (Some [FileNode ''a.jpg'' File None None None None])
        None None None) None = None
   \<and> detectFileCategory (FileNode ''screenshot_2024.png'' File None None None None) None =
       Some \<lparr>target = ''05_Stage/Media/Images'', priority = 5, category = MEDIA_IMAGE,
             reason = ''Screenshot''\<rparr>
   \<and> detectFileCategory (FileNode ''archive.zip'' File None None None None) None =
       Some \<lparr>target = ''00_Inbox/Archives'', priority = 5, category = ARCHIVE_COMPRESSED,
             reason = ''Archive''\<rparr>
   \<and> detectFileCategory (FileNode ''Makefile'' File None None None None) None = None"
proof -
  let ?photos = "FileNode ''photos.zip'' Folder (Some [FileNode ''a.jpg'' File None None None None])
        None None None"
  let ?shot = "FileNode ''screenshot_2024.png'' File None None None None"
  let ?zip = "FileNode ''archive.zip'' File None None None None"
  let ?make = "FileNode ''Makefile'' File None None None None"
  have d: "\<not> list_ex (\<lambda>d. pd_check d ?photos None) PROJECT_DETECTORS"
    by (simp add: find_None_list_ex [symmetric] no_children_no_detector)
  have r: "\<not> list_ex (\<lambda>rule. fr_check rule ?photos) FOLDER_RULES"
    by (simp add: FOLDER_RULES_def nullish0_def)
  have a: "detectFileCategory ?photos None = None"
    using extension_stage_last_and_files_only [where item = ?photos and ch = None] d r
      photos_zip_no_pattern by simp
  have b: "detectFileCategory ?shot None =
       Some \<lparr>target = ''05_Stage/Media/Images'', priority = 5, category = MEDIA_IMAGE,
             reason = ''Screenshot''\<rparr>"
    using extension_stage_last_and_files_only [where item = ?shot and ch = None
        and p = "\<lparr>np_pattern = RegExp ''screenshot'' True, np_category = MEDIA_IMAGE,
           np_reason = ''Screenshot''\<rparr>"] screenshot_pattern
    by (simp add: result_def)
  have c: "detectFileCategory ?zip None =
       Some \<lparr>target = ''00_Inbox/Archives'', priority = 5, category = ARCHIVE_COMPRESSED,
             reason = ''Archive''\<rparr>"
    using extension_stage_last_and_files_only [where item = ?zip and ch = None
        and stem = "''archive''" and e = "''zip''"] archive_zip_no_pattern archive_zip_ext
    by (simp add: result_def)
  have e: "detectFileCategory ?make None = None"
    using extension_stage_last_and_files_only [where item = ?make and ch = None]
      makefile_no_pattern by simp
  from a b c e show ?thesis by blast
qed

section \<open>Size aggregation\<close>

lemma or0_Some [simp]: "or0 (Some v) = v"
  by (simp add: or0_def)

lemma or0_None [simp]: "or0 None = 0"
  by (simp add: or0_def)

lemma traverse_idem: "traverse (traverse t) = traverse t"
proof (induction t)
  case (FileNode n t ch a c s)
  have kids: "map traverse (map traverse cs) = map traverse cs" if "ch = Some cs" for cs
    using FileNode.IH that by (auto simp: map_idI)
  show ?case
    by (cases ch) (simp_all add: Let_def kids del: map_map)
qed

text \<open>
  C9. The bottom-up size aggregation is idempotent: enriching an already enriched tree
  gives the same tree.
\<close>

theorem enrichWithSizes_idempotent:
  "enrichWithSizes (enrichWithSizes t) = enrichWithSizes t"
  by (simp add: enrichWithSizes_def traverse_idem)

end
